theory Spec2Isabelle
  imports Main
begin

section \<open>Values that cross the component boundary\<close>

text \<open>
  The items of the search response are untyped in the source (\<^verbatim>\<open>repo: any\<close>), and the
  test suite feeds items that have no \<^verbatim>\<open>html_url\<close> at all. A URL is therefore an optional
  string: \<open>None\<close> stands for \<^verbatim>\<open>undefined\<close>/\<^verbatim>\<open>null\<close>, \<open>Some s\<close> for the string \<open>s\<close>.
  The field \<^verbatim>\<open>id\<close> is called \<open>repo_id\<close> and \<^verbatim>\<open>name\<close> is called \<open>repo_name\<close> here, because
  \<open>id\<close> is the identity function of HOL and \<open>name\<close> is also a prop of RepositoryItem.
\<close>

record repo =
  repo_id :: int
  repo_name :: string
  watchers :: int
  html_url :: "string option"
  homepage :: "string option"

text \<open>
  JavaScript truthiness of an optional string, as \<^verbatim>\<open>&&\<close> and \<^verbatim>\<open>if\<close> test it:
  \<^verbatim>\<open>undefined\<close>, \<^verbatim>\<open>null\<close> and the empty string are falsy, every other string is truthy.
\<close>

definition truthy :: "string option \<Rightarrow> bool" where
  "truthy v = (case v of None \<Rightarrow> False | Some s \<Rightarrow> s \<noteq> [])"

section \<open>RepositoryItem.tsx\<close>

record RepositoryItemProps =
  name :: string
  watchCount :: int
  homepageUrl :: "string option"
  repositoryUrl :: "string option"

text \<open>
  What one RepositoryItem renders: the anchor to the repository (its \<^verbatim>\<open>href\<close>, the name
  and the watcher count), and the optional fragment with the "Home Page" anchor.
  \<open>home_page\<close> is \<open>Some h\<close> when that fragment is rendered with \<^verbatim>\<open>href\<close> \<open>h\<close>, and \<open>None\<close>
  when the fragment is left out.
\<close>

record item_element =
  repo_href :: "string option"
  repo_label :: string
  repo_watchers :: int
  home_page :: "string option"

text \<open>
  The condition of line 24:
  \<^verbatim>\<open>homepageUrl && repositoryUrl && homepageUrl !== repositoryUrl\<close>.
  The strict inequality is only reached when both operands are truthy, hence strings.
\<close>

definition shows_home_page :: "RepositoryItemProps \<Rightarrow> bool" where
  "shows_home_page p =
     (truthy (homepageUrl p) \<and> truthy (repositoryUrl p) \<and> homepageUrl p \<noteq> repositoryUrl p)"

definition RepositoryItem :: "RepositoryItemProps \<Rightarrow> item_element" where
  "RepositoryItem p =
     \<lparr>repo_href = repositoryUrl p,
      repo_label = name p,
      repo_watchers = watchCount p,
      home_page = (if shows_home_page p then homepageUrl p else None)\<rparr>"

section \<open>App.tsx\<close>

subsection \<open>State cells and the render function\<close>

record app_state =
  isLoading :: bool
  error :: string
  topRepositories :: "repo list"

text \<open>
  The three things App can return: the spinner, the error element with its
  \<^verbatim>\<open>message\<close> prop, or the list, one keyed RepositoryItem for each repository.
\<close>

datatype view =
  LoadingSpinner
| ErrorMessage string
| AppDiv "(int \<times> item_element) list"

definition item_props :: "repo \<Rightarrow> RepositoryItemProps" where
  "item_props r =
     \<lparr>name = repo_name r,
      watchCount = watchers r,
      homepageUrl = homepage r,
      repositoryUrl = html_url r\<rparr>"

definition row :: "repo \<Rightarrow> int \<times> item_element" where
  "row r = (repo_id r, RepositoryItem (item_props r))"

text \<open>Lines 30 to 53: two early returns, then the list. \<^verbatim>\<open>if (error)\<close> tests a string.\<close>

definition App :: "app_state \<Rightarrow> view" where
  "App s =
     (if isLoading s then LoadingSpinner
      else if error s \<noteq> [] then ErrorMessage (error s)
      else AppDiv (map row (topRepositories s)))"

subsection \<open>The effect and the promise handlers\<close>

text \<open>
  Everything the effect and its handlers do is a call: of a state setter, of
  \<^verbatim>\<open>axios.get\<close>, or of \<^verbatim>\<open>console.log\<close>. Each piece of code is the list of calls it makes.
\<close>

datatype effect =
  SetIsLoading bool
| SetError string
| SetTopRepositories "repo list"
| ConsoleLog "repo list"
| AxiosGet string

definition request_url :: string where
  "request_url = ''https://api.github.com/search/repositories?q=stars:%3E1&sort=stars''"

definition useEffect_body :: "effect list" where
  "useEffect_body = [SetIsLoading True, AxiosGet request_url]"

definition then_handler :: "repo list \<Rightarrow> effect list" where
  "then_handler items = [ConsoleLog items, SetTopRepositories items]"

definition catch_handler :: "string \<Rightarrow> effect list" where
  "catch_handler message = [SetError message]"

definition finally_handler :: "effect list" where
  "finally_handler = [SetIsLoading False]"

text \<open>
  A completion signal of the request: the response's \<^verbatim>\<open>data.items\<close>, or the \<^verbatim>\<open>message\<close> of
  the rejection; the third event is the teardown of the component. The chain
  \<^verbatim>\<open>.then(f).catch(g).finally(h)\<close> runs \<open>f\<close> then \<open>h\<close> on fulfilment and \<open>g\<close> then \<open>h\<close> on
  rejection (\<open>f\<close> itself does not throw on a list). The effect returns no cleanup
  function, so a teardown runs no code of the component.
  The three handlers are registered on the one promise that \<^verbatim>\<open>axios.get\<close> returns for the
  one request. A promise settles once: the first completion signal settles it and
  runs the handlers, and a later signal on the same promise reaches no handler.
\<close>

datatype event =
  Resolve "repo list"
| Reject string
| Unmount

fun handlers :: "event \<Rightarrow> effect list" where
  "handlers (Resolve items) = then_handler items @ finally_handler"
| "handlers (Reject message) = catch_handler message @ finally_handler"
| "handlers Unmount = []"

subsection \<open>One component instance\<close>

text \<open>
  An instance is its three cells, whether it is still mounted, whether the promise of
  its request has settled, and the trace of every call its code has made so far. The
  handlers have no access to \<open>mounted\<close>: it belongs to the UI engine, as \<open>settled\<close>
  belongs to the promise. What the engine does with a setter call on an instance that is no
  longer mounted is not part of this repository, so it is the parameter \<open>drops\<close>:
  \<open>True\<close> when the engine ignores such a call, \<open>False\<close> when it still writes the cell.
\<close>

record component =
  cells :: app_state
  mounted :: bool
  settled :: bool
  trace :: "effect list"

fun apply_effect :: "effect \<Rightarrow> app_state \<Rightarrow> app_state" where
  "apply_effect (SetIsLoading b) s = s\<lparr>isLoading := b\<rparr>"
| "apply_effect (SetError m) s = s\<lparr>error := m\<rparr>"
| "apply_effect (SetTopRepositories items) s = s\<lparr>topRepositories := items\<rparr>"
| "apply_effect (ConsoleLog items) s = s"
| "apply_effect (AxiosGet url) s = s"

definition perform :: "bool \<Rightarrow> effect \<Rightarrow> component \<Rightarrow> component" where
  "perform drops e i =
     i\<lparr>cells := (if drops \<and> \<not> mounted i then cells i else apply_effect e (cells i)),
       trace := trace i @ [e]\<rparr>"

fun perform_all :: "bool \<Rightarrow> effect list \<Rightarrow> component \<Rightarrow> component" where
  "perform_all drops [] i = i"
| "perform_all drops (e # es) i = perform_all drops es (perform drops e i)"

text \<open>Lines 9 to 11: the initial values of the cells, at the first render.\<close>

definition initial :: component where
  "initial =
     \<lparr>cells = \<lparr>isLoading = True, error = [], topRepositories = []\<rparr>,
      mounted = True,
      settled = False,
      trace = []\<rparr>"

text \<open>
  The dependency array of the effect is empty, so the effect runs once, after the
  first render, and no later render runs it again.
\<close>

definition mount :: "bool \<Rightarrow> component" where
  "mount drops = perform_all drops useEffect_body initial"

text \<open>
  An event reaching the instance. A teardown only marks it unmounted. A completion
  signal on the pending promise runs the handlers of the chain and settles the
  promise; on the settled promise it does nothing.
\<close>

fun deliver :: "bool \<Rightarrow> event \<Rightarrow> component \<Rightarrow> component" where
  "deliver drops Unmount i = i\<lparr>mounted := False\<rparr>"
| "deliver drops ev i =
     (if settled i then i else (perform_all drops (handlers ev) i)\<lparr>settled := True\<rparr>)"

fun deliver_all :: "bool \<Rightarrow> event list \<Rightarrow> component \<Rightarrow> component" where
  "deliver_all drops [] i = i"
| "deliver_all drops (ev # evs) i = deliver_all drops evs (deliver drops ev i)"

definition lifecycle :: "bool \<Rightarrow> event list \<Rightarrow> component" where
  "lifecycle drops evs = deliver_all drops evs (mount drops)"

subsection \<open>Observations\<close>

fun requested :: "effect \<Rightarrow> string list" where
  "requested (AxiosGet url) = [url]"
| "requested e = []"

definition fetch_calls :: "component \<Rightarrow> string list" where
  "fetch_calls i = concat (map requested (trace i))"

fun is_Loading :: "view \<Rightarrow> bool" where
  "is_Loading LoadingSpinner = True"
| "is_Loading v = False"

fun is_Error :: "view \<Rightarrow> bool" where
  "is_Error (ErrorMessage m) = True"
| "is_Error v = False"

fun is_Ready :: "view \<Rightarrow> bool" where
  "is_Ready (AppDiv rows) = True"
| "is_Ready v = False"

definition active_variants :: "view \<Rightarrow> nat" where
  "active_variants v = length (filter (\<lambda>b. b) [is_Loading v, is_Error v, is_Ready v])"

section \<open>Basic facts\<close>

lemma mount_eq:
  "mount drops =
     \<lparr>cells = \<lparr>isLoading = True, error = [], topRepositories = []\<rparr>,
      mounted = True,
      settled = False,
      trace = [SetIsLoading True, AxiosGet request_url]\<rparr>"
  by (simp add: mount_def useEffect_body_def initial_def perform_def)

lemma resolved_eq:
  "deliver drops (Resolve S) (mount drops) =
     \<lparr>cells = \<lparr>isLoading = False, error = [], topRepositories = S\<rparr>,
      mounted = True,
      settled = True,
      trace = [SetIsLoading True, AxiosGet request_url,
               ConsoleLog S, SetTopRepositories S, SetIsLoading False]\<rparr>"
  by (simp add: mount_eq then_handler_def finally_handler_def perform_def)

lemma rejected_eq:
  "deliver drops (Reject m) (mount drops) =
     \<lparr>cells = \<lparr>isLoading = False, error = m, topRepositories = []\<rparr>,
      mounted = True,
      settled = True,
      trace = [SetIsLoading True, AxiosGet request_url, SetError m, SetIsLoading False]\<rparr>"
  by (simp add: mount_eq catch_handler_def finally_handler_def perform_def)

lemma unmounted_eq:
  "deliver drops Unmount (mount drops) =
     \<lparr>cells = \<lparr>isLoading = True, error = [], topRepositories = []\<rparr>,
      mounted = False,
      settled = False,
      trace = [SetIsLoading True, AxiosGet request_url]\<rparr>"
  by (simp add: mount_eq)

lemma trace_perform_all: "trace (perform_all drops es i) = trace i @ es"
  by (induction es arbitrary: i) (simp_all add: perform_def)

lemma trace_deliver_pending:
  "\<not> settled i \<Longrightarrow> trace (deliver drops ev i) = trace i @ handlers ev"
  by (cases ev) (simp_all add: trace_perform_all)

lemma requested_handlers: "concat (map requested (handlers ev)) = []"
  by (cases ev) (simp_all add: then_handler_def catch_handler_def finally_handler_def)

lemma requested_deliver:
  "concat (map requested (trace (deliver drops ev i))) = concat (map requested (trace i))"
proof (cases "settled i")
  case True
  then show ?thesis
    by (cases ev) simp_all
next
  case False
  then show ?thesis
    by (simp add: trace_deliver_pending requested_handlers del: deliver.simps)
qed

lemma requested_deliver_all:
  "concat (map requested (trace (deliver_all drops evs i))) = concat (map requested (trace i))"
  by (induction evs arbitrary: i) (simp_all add: requested_deliver del: deliver.simps)

lemma deliver_settled:
  "settled i \<Longrightarrow>
     cells (deliver drops ev i) = cells i
     \<and> trace (deliver drops ev i) = trace i
     \<and> settled (deliver drops ev i)"
  by (cases ev) simp_all

lemma deliver_all_settled:
  "settled i \<Longrightarrow>
     cells (deliver_all drops evs i) = cells i
     \<and> trace (deliver_all drops evs i) = trace i"
proof (induction evs arbitrary: i)
  case Nil
  show ?case by simp
next
  case (Cons ev evs)
  from Cons.prems have step:
    "cells (deliver drops ev i) = cells i"
    "trace (deliver drops ev i) = trace i"
    "settled (deliver drops ev i)"
    using deliver_settled [of i drops ev] by blast+
  from Cons.IH [OF step(3)] step(1,2) show ?case
    by (simp del: deliver.simps)
qed

lemma second_signal_ignored:
  "settled i \<Longrightarrow> deliver drops (Resolve S) i = i \<and> deliver drops (Reject m) i = i"
  by simp

lemma cells_late_dropped:
  "cells (deliver True ev (deliver True Unmount (mount True))) = cells (mount True)"
  by (cases ev)
     (simp_all add: mount_eq then_handler_def catch_handler_def finally_handler_def
        perform_def)

lemma cells_late_written:
  "cells (deliver False ev (deliver False Unmount (mount False))) =
   cells (deliver False ev (mount False))"
  by (cases ev)
     (simp_all add: mount_eq then_handler_def catch_handler_def finally_handler_def
        perform_def)

declare deliver.simps [simp del]

section \<open>The claims\<close>

subsection \<open>Success\<close>

text \<open>
  Claim C1. Whatever list \<open>S\<close> of repositories the request resolves with, the component
  ends with the items cell equal to \<open>S\<close> and renders the list branch with one row for
  each element of \<open>S\<close>, in the order of \<open>S\<close>: the keys of the rows are the ids of \<open>S\<close>, and the
  labels, watcher counts and repository links are those of \<open>S\<close>, position by position.
  Nothing is reordered, filtered or dropped. When \<open>S\<close> is empty the list branch is
  rendered with no row.
\<close>

theorem success_keeps_items_in_order:
  "topRepositories (cells (deliver drops (Resolve S) (mount drops))) = S
   \<and> App (cells (deliver drops (Resolve S) (mount drops))) = AppDiv (map row S)
   \<and> length (map row S) = length S
   \<and> map fst (map row S) = map repo_id S
   \<and> map (\<lambda>(k, el). (repo_label el, repo_watchers el, repo_href el)) (map row S)
       = map (\<lambda>r. (repo_name r, watchers r, html_url r)) S
   \<and> App (cells (deliver drops (Resolve []) (mount drops))) = AppDiv []"
  by (simp add: resolved_eq App_def row_def RepositoryItem_def item_props_def comp_def)

subsection \<open>The home page link\<close>

text \<open>
  Claim C2. The data model requires \<^verbatim>\<open>repositoryUrl\<close> to be present. For every row with a
  non-empty \<^verbatim>\<open>repositoryUrl\<close>, the "Home Page" link is rendered exactly when
  \<^verbatim>\<open>homepageUrl\<close> is non-empty and differs from \<^verbatim>\<open>repositoryUrl\<close>, and its \<^verbatim>\<open>href\<close> is then
  \<^verbatim>\<open>homepageUrl\<close>: it is left out when the two are equal, left out when \<^verbatim>\<open>homepageUrl\<close> is
  the empty string or absent, and rendered when \<^verbatim>\<open>homepageUrl\<close> is non-empty and
  different. When every repository of a success has a non-empty \<^verbatim>\<open>html_url\<close>, every
  row of the list follows this rule on the \<^verbatim>\<open>homepage\<close> and \<^verbatim>\<open>html_url\<close> of its repository.
\<close>

theorem home_page_link_rule:
  assumes present: "truthy (repositoryUrl p)"
    and all_present: "\<forall>r \<in> set S. truthy (html_url r)"
  shows
  "(home_page (RepositoryItem p) \<noteq> None) =
     (truthy (homepageUrl p) \<and> homepageUrl p \<noteq> repositoryUrl p)
   \<and> (home_page (RepositoryItem p) = None \<or> home_page (RepositoryItem p) = homepageUrl p)
   \<and> home_page (RepositoryItem (p\<lparr>homepageUrl := repositoryUrl p\<rparr>)) = None
   \<and> home_page (RepositoryItem (p\<lparr>homepageUrl := Some []\<rparr>)) = None
   \<and> home_page (RepositoryItem (p\<lparr>homepageUrl := None\<rparr>)) = None
   \<and> App (cells (deliver drops (Resolve S) (mount drops))) =
       AppDiv (map (\<lambda>r. (repo_id r,
          \<lparr>repo_href = html_url r, repo_label = repo_name r, repo_watchers = watchers r,
           home_page =
             (if truthy (homepage r) \<and> homepage r \<noteq> html_url r
              then homepage r else None)\<rparr>)) S)"
proof -
  have link: "(home_page (RepositoryItem p) \<noteq> None) =
      (truthy (homepageUrl p) \<and> homepageUrl p \<noteq> repositoryUrl p)"
    using present
    by (auto simp add: RepositoryItem_def shows_home_page_def truthy_def
          split: option.splits)
  have href: "home_page (RepositoryItem p) = None
      \<or> home_page (RepositoryItem p) = homepageUrl p"
    by (simp add: RepositoryItem_def)
  have left_out:
    "home_page (RepositoryItem (p\<lparr>homepageUrl := repositoryUrl p\<rparr>)) = None"
    "home_page (RepositoryItem (p\<lparr>homepageUrl := Some []\<rparr>)) = None"
    "home_page (RepositoryItem (p\<lparr>homepageUrl := None\<rparr>)) = None"
    by (simp_all add: RepositoryItem_def shows_home_page_def truthy_def)
  have each: "row r =
      (repo_id r,
       \<lparr>repo_href = html_url r, repo_label = repo_name r, repo_watchers = watchers r,
        home_page =
          (if truthy (homepage r) \<and> homepage r \<noteq> html_url r
           then homepage r else None)\<rparr>)"
    if "r \<in> set S" for r
  proof -
    from that all_present have "truthy (html_url r)"
      by blast
    then show ?thesis
      by (simp add: row_def RepositoryItem_def item_props_def shows_home_page_def)
  qed
  have rows: "App (cells (deliver drops (Resolve S) (mount drops))) =
       AppDiv (map (\<lambda>r. (repo_id r,
          \<lparr>repo_href = html_url r, repo_label = repo_name r, repo_watchers = watchers r,
           home_page =
             (if truthy (homepage r) \<and> homepage r \<noteq> html_url r
              then homepage r else None)\<rparr>)) S)"
    using each by (simp add: resolved_eq App_def cong: map_cong)
  from link href left_out rows show ?thesis
    by blast
qed

text \<open>
  The first item of the specification's scenario, with the repository URL of that
  project: both URLs are non-empty and differ, and the link is rendered.
\<close>

theorem home_page_link_rule_witness:
  "truthy (repositoryUrl
      \<lparr>name = ''freeCodeCamp'', watchCount = 323864,
       homepageUrl = Some ''https://contribute.freecodecamp.org'',
       repositoryUrl = Some ''https://github.com/freeCodeCamp/freeCodeCamp''\<rparr>)
   \<and> truthy (html_url
      \<lparr>repo_id = 28457823, repo_name = ''freeCodeCamp'', watchers = 323864,
       html_url = Some ''https://github.com/freeCodeCamp/freeCodeCamp'',
       homepage = Some ''https://contribute.freecodecamp.org''\<rparr>)
   \<and> home_page (RepositoryItem
      \<lparr>name = ''freeCodeCamp'', watchCount = 323864,
       homepageUrl = Some ''https://contribute.freecodecamp.org'',
       repositoryUrl = Some ''https://github.com/freeCodeCamp/freeCodeCamp''\<rparr>)
       = Some ''https://contribute.freecodecamp.org''
   \<and> App (cells (deliver True (Resolve
      [\<lparr>repo_id = 28457823, repo_name = ''freeCodeCamp'', watchers = 323864,
        html_url = Some ''https://github.com/freeCodeCamp/freeCodeCamp'',
        homepage = Some ''https://contribute.freecodecamp.org''\<rparr>]) (mount True)))
       = AppDiv [(28457823,
           \<lparr>repo_href = Some ''https://github.com/freeCodeCamp/freeCodeCamp'',
            repo_label = ''freeCodeCamp'', repo_watchers = 323864,
            home_page = Some ''https://contribute.freecodecamp.org''\<rparr>)]"
proof -
  let ?p = "\<lparr>name = ''freeCodeCamp'', watchCount = 323864,
             homepageUrl = Some ''https://contribute.freecodecamp.org'',
             repositoryUrl = Some ''https://github.com/freeCodeCamp/freeCodeCamp''\<rparr>"
  let ?r = "\<lparr>repo_id = 28457823, repo_name = ''freeCodeCamp'', watchers = 323864,
             html_url = Some ''https://github.com/freeCodeCamp/freeCodeCamp'',
             homepage = Some ''https://contribute.freecodecamp.org''\<rparr>"
  have present: "truthy (repositoryUrl ?p)"
    by (simp add: truthy_def)
  have one: "truthy (html_url ?r)"
    by (simp add: truthy_def)
  then have all_present: "\<forall>r \<in> set [?r]. truthy (html_url r)"
    by simp
  have differs: "truthy (homepageUrl ?p) \<and> homepageUrl ?p \<noteq> repositoryUrl ?p"
    by (simp add: truthy_def)
  note rule = home_page_link_rule [OF present all_present, of True]
  from rule differs have "home_page (RepositoryItem ?p) \<noteq> None"
    by blast
  with rule have shown: "home_page (RepositoryItem ?p) = homepageUrl ?p"
    by blast
  from rule have
    "App (cells (deliver True (Resolve [?r]) (mount True))) =
       AppDiv (map (\<lambda>r. (repo_id r,
          \<lparr>repo_href = html_url r, repo_label = repo_name r, repo_watchers = watchers r,
           home_page =
             (if truthy (homepage r) \<and> homepage r \<noteq> html_url r
              then homepage r else None)\<rparr>)) [?r])"
    by blast
  then have rows: "App (cells (deliver True (Resolve [?r]) (mount True))) =
       AppDiv [(28457823,
           \<lparr>repo_href = Some ''https://github.com/freeCodeCamp/freeCodeCamp'',
            repo_label = ''freeCodeCamp'', repo_watchers = 323864,
            home_page = Some ''https://contribute.freecodecamp.org''\<rparr>)]"
    by (simp add: truthy_def)
  from present one shown rows show ?thesis
    by simp
qed

text \<open>
  Claim C9. A row whose \<^verbatim>\<open>repositoryUrl\<close> is empty or absent never has the "Home Page"
  link, whatever its \<^verbatim>\<open>homepageUrl\<close> is: the condition also asks for a non-empty
  \<^verbatim>\<open>repositoryUrl\<close>. This holds for the component alone and for the row that App builds
  from a repository whose \<^verbatim>\<open>html_url\<close> is empty or absent.
\<close>

theorem no_home_page_without_repository_url:
  "\<not> truthy (html_url r) \<Longrightarrow>
     home_page (snd (row r)) = None
     \<and> home_page (RepositoryItem (p\<lparr>repositoryUrl := html_url r\<rparr>)) = None"
  by (simp add: row_def RepositoryItem_def item_props_def shows_home_page_def)

text \<open>
  The second item of the test suite has no \<^verbatim>\<open>html_url\<close>; its home page is non-empty
  and differs from it, and the link is left out.
\<close>

theorem no_home_page_without_repository_url_witness:
  "\<not> truthy (html_url
        \<lparr>repo_id = 177736533, repo_name = ''996.ICU'', watchers = 256883,
         html_url = None, homepage = Some ''https://996.icu''\<rparr>)
   \<and> truthy (homepage
        \<lparr>repo_id = 177736533, repo_name = ''996.ICU'', watchers = 256883,
         html_url = None, homepage = Some ''https://996.icu''\<rparr>)
   \<and> home_page (snd (row
        \<lparr>repo_id = 177736533, repo_name = ''996.ICU'', watchers = 256883,
         html_url = None, homepage = Some ''https://996.icu''\<rparr>)) = None"
proof -
  let ?r = "\<lparr>repo_id = 177736533, repo_name = ''996.ICU'', watchers = 256883,
             html_url = None, homepage = Some ''https://996.icu''\<rparr>"
  have absent: "\<not> truthy (html_url ?r)"
    by (simp add: truthy_def)
  have present: "truthy (homepage ?r)"
    by (simp add: truthy_def)
  from no_home_page_without_repository_url [OF absent]
  have "home_page (snd (row ?r)) = None"
    by blast
  with absent present show ?thesis
    by blast
qed

subsection \<open>Failure\<close>

text \<open>
  Claim C3, as stated: every failure message ends in the error branch carrying that
  message. It fails for the empty message: App does not return the error element with
  the empty message (it returns the list branch, see claim C10).
\<close>

theorem empty_failure_message_not_error:
  "App (cells (deliver True (Reject []) (mount True))) \<noteq> ErrorMessage []"
  by (simp add: rejected_eq App_def)

text \<open>
  Claim C3, amended. For every failure whose message is a non-empty string, the error
  cell ends holding exactly that message and App returns the error element with
  exactly that message as its \<^verbatim>\<open>message\<close> prop.
\<close>

theorem failure_message_verbatim:
  "m \<noteq> [] \<Longrightarrow>
     error (cells (deliver drops (Reject m) (mount drops))) = m
     \<and> App (cells (deliver drops (Reject m) (mount drops))) = ErrorMessage m"
  by (simp add: rejected_eq App_def)

text \<open>The message of the specification's scenario.\<close>

theorem failure_message_verbatim_witness:
  "''A terrible error occurred :('' \<noteq> []
   \<and> error (cells (deliver True (Reject ''A terrible error occurred :('') (mount True)))
       = ''A terrible error occurred :(''
   \<and> App (cells (deliver True (Reject ''A terrible error occurred :('') (mount True)))
       = ErrorMessage ''A terrible error occurred :(''"
proof -
  have nonempty: "''A terrible error occurred :('' \<noteq> []"
    by simp
  from failure_message_verbatim [OF nonempty, of True] nonempty show ?thesis
    by blast
qed

text \<open>
  Claim C10. When the request fails with the empty string as its message, App returns
  the list branch with no row, not the error element: the view is the one of a
  success with no item, although the stored message is the (empty) message of the
  failure.
\<close>

theorem empty_message_failure_renders_list:
  "App (cells (deliver drops (Reject []) (mount drops))) = AppDiv []
   \<and> \<not> is_Error (App (cells (deliver drops (Reject []) (mount drops))))
   \<and> App (cells (deliver drops (Reject []) (mount drops)))
       = App (cells (deliver drops (Resolve []) (mount drops)))
   \<and> cells (deliver drops (Reject []) (mount drops))
       = cells (deliver drops (Resolve []) (mount drops))"
  by (simp add: rejected_eq resolved_eq App_def)

subsection \<open>Before completion\<close>

text \<open>
  Claim C4. The view is the spinner at the first render, after the effect has run,
  and still while the handlers of a completion are running: after the fulfilment
  handler, or the rejection handler, and before the final handler.
\<close>

theorem loading_until_completion:
  "App (cells initial) = LoadingSpinner
   \<and> App (cells (mount drops)) = LoadingSpinner
   \<and> App (cells (perform_all drops (then_handler S) (mount drops))) = LoadingSpinner
   \<and> App (cells (perform_all drops (catch_handler m) (mount drops))) = LoadingSpinner"
  by (simp add: mount_eq initial_def App_def then_handler_def catch_handler_def perform_def)

subsection \<open>The request\<close>

text \<open>
  Claim C7. Whatever events follow the initialization (success, failure, teardown,
  in any number and order), the component has called \<^verbatim>\<open>axios.get\<close> exactly once, with
  the fixed URL: the effect issues the one call, and no handler issues another.
\<close>

theorem exactly_one_fetch_call:
  "fetch_calls (lifecycle drops evs) = [request_url]
   \<and> length (fetch_calls (lifecycle drops evs)) = 1"
  by (simp add: fetch_calls_def lifecycle_def requested_deliver_all mount_eq)

subsection \<open>The three branches\<close>

text \<open>
  Claim C8. For every content of the three cells, hence at every point of every
  lifecycle, App returns exactly one of the three variants: the spinner exactly when
  the loading cell is set, the error element exactly when it is not set and the
  message is non-empty, the list exactly when it is not set and the message is empty.
\<close>

theorem exactly_one_variant:
  "active_variants (App s) = 1
   \<and> is_Loading (App s) = isLoading s
   \<and> is_Error (App s) = (\<not> isLoading s \<and> error s \<noteq> [])
   \<and> is_Ready (App s) = (\<not> isLoading s \<and> error s = [])
   \<and> active_variants (App (cells (lifecycle drops evs))) = 1"
  by (simp add: active_variants_def App_def)

subsection \<open>A second completion signal\<close>

text \<open>
  Claim C5. Of two completion signals on the one request only the first is applied:
  whichever of success and failure each of the two is, the second leaves the whole
  instance as the first left it (cells, view, and the calls made). The view leaves
  the spinner at most once per initialization: it is the spinner before the first
  signal, and after it the cells stay what the first signal made them, whatever
  events follow, so the view is never the spinner again.
\<close>

theorem only_first_signal_applied:
  "deliver drops (Resolve S2) (deliver drops (Resolve S1) (mount drops))
     = deliver drops (Resolve S1) (mount drops)
   \<and> deliver drops (Reject m2) (deliver drops (Resolve S1) (mount drops))
       = deliver drops (Resolve S1) (mount drops)
   \<and> deliver drops (Resolve S2) (deliver drops (Reject m1) (mount drops))
       = deliver drops (Reject m1) (mount drops)
   \<and> deliver drops (Reject m2) (deliver drops (Reject m1) (mount drops))
       = deliver drops (Reject m1) (mount drops)
   \<and> is_Loading (App (cells (mount drops)))
   \<and> cells (deliver_all drops evs (deliver drops (Resolve S1) (mount drops)))
       = \<lparr>isLoading = False, error = [], topRepositories = S1\<rparr>
   \<and> cells (deliver_all drops evs (deliver drops (Reject m1) (mount drops)))
       = \<lparr>isLoading = False, error = m1, topRepositories = []\<rparr>
   \<and> trace (deliver_all drops evs (deliver drops (Resolve S1) (mount drops)))
       = trace (deliver drops (Resolve S1) (mount drops))
   \<and> trace (deliver_all drops evs (deliver drops (Reject m1) (mount drops)))
       = trace (deliver drops (Reject m1) (mount drops))
   \<and> \<not> is_Loading (App (cells
        (deliver_all drops evs (deliver drops (Resolve S1) (mount drops)))))
   \<and> \<not> is_Loading (App (cells
        (deliver_all drops evs (deliver drops (Reject m1) (mount drops)))))"
proof -
  have done_success: "settled (deliver drops (Resolve S1) (mount drops))"
    by (simp add: resolved_eq)
  have done_failure: "settled (deliver drops (Reject m1) (mount drops))"
    by (simp add: rejected_eq)
  have pairs:
    "deliver drops (Resolve S2) (deliver drops (Resolve S1) (mount drops))
       = deliver drops (Resolve S1) (mount drops)"
    "deliver drops (Reject m2) (deliver drops (Resolve S1) (mount drops))
       = deliver drops (Resolve S1) (mount drops)"
    "deliver drops (Resolve S2) (deliver drops (Reject m1) (mount drops))
       = deliver drops (Reject m1) (mount drops)"
    "deliver drops (Reject m2) (deliver drops (Reject m1) (mount drops))
       = deliver drops (Reject m1) (mount drops)"
    using second_signal_ignored [OF done_success] second_signal_ignored [OF done_failure]
    by blast+
  have before: "is_Loading (App (cells (mount drops)))"
    by (simp add: mount_eq App_def)
  have later_success:
    "cells (deliver_all drops evs (deliver drops (Resolve S1) (mount drops)))
       = \<lparr>isLoading = False, error = [], topRepositories = S1\<rparr>"
    "trace (deliver_all drops evs (deliver drops (Resolve S1) (mount drops)))
       = trace (deliver drops (Resolve S1) (mount drops))"
    using deliver_all_settled [OF done_success, of drops evs]
    by (simp_all add: resolved_eq)
  have later_failure:
    "cells (deliver_all drops evs (deliver drops (Reject m1) (mount drops)))
       = \<lparr>isLoading = False, error = m1, topRepositories = []\<rparr>"
    "trace (deliver_all drops evs (deliver drops (Reject m1) (mount drops)))
       = trace (deliver drops (Reject m1) (mount drops))"
    using deliver_all_settled [OF done_failure, of drops evs]
    by (simp_all add: rejected_eq)
  have never_again:
    "\<not> is_Loading (App (cells
        (deliver_all drops evs (deliver drops (Resolve S1) (mount drops)))))"
    "\<not> is_Loading (App (cells
        (deliver_all drops evs (deliver drops (Reject m1) (mount drops)))))"
    by (simp_all only: later_success later_failure) (simp_all add: App_def)
  from pairs before later_success later_failure never_again show ?thesis
    by blast
qed

subsection \<open>Completion after teardown\<close>

text \<open>
  Claim C6, as stated: when the component is torn down before the request completes,
  the late completion signal is discarded. It fails: the handlers still run after
  the teardown, and call \<^verbatim>\<open>console.log\<close>, \<^verbatim>\<open>setTopRepositories\<close> and \<^verbatim>\<open>setIsLoading\<close> on the
  instance that is gone, even when the engine then ignores these calls.
\<close>

theorem late_signal_not_discarded:
  "deliver True (Resolve []) (deliver True Unmount (mount True))
     \<noteq> deliver True Unmount (mount True)
   \<and> trace (deliver True (Resolve []) (deliver True Unmount (mount True)))
       = trace (deliver True Unmount (mount True))
         @ [ConsoleLog [], SetTopRepositories [], SetIsLoading False]"
proof -
  have calls:
    "trace (deliver True (Resolve []) (deliver True Unmount (mount True)))
       = trace (deliver True Unmount (mount True))
         @ [ConsoleLog [], SetTopRepositories [], SetIsLoading False]"
    by (simp add: trace_deliver_pending unmounted_eq then_handler_def finally_handler_def)
  then have
    "trace (deliver True (Resolve []) (deliver True Unmount (mount True)))
       \<noteq> trace (deliver True Unmount (mount True))"
    by simp
  then have
    "deliver True (Resolve []) (deliver True Unmount (mount True))
       \<noteq> deliver True Unmount (mount True)"
    by auto
  with calls show ?thesis
    by blast
qed

text \<open>
  Claim C6, amended. The effect registers no cleanup and the handlers hold no guard:
  when the component is torn down before the request completes, the late completion
  signal still runs the handlers, which make the same calls as on a live instance.
  Whether these calls change the cells is decided by the engine alone: the cells stay
  as they were at the teardown when the engine ignores calls on an unmounted
  instance, and they are written as on a live instance when it does not.
\<close>

theorem late_signal_runs_handlers:
  "trace (deliver drops ev (deliver drops Unmount (mount drops)))
     = trace (mount drops) @ handlers ev
   \<and> trace (deliver drops ev (mount drops)) = trace (mount drops) @ handlers ev
   \<and> cells (deliver True ev (deliver True Unmount (mount True))) = cells (mount True)
   \<and> cells (deliver False ev (deliver False Unmount (mount False)))
       = cells (deliver False ev (mount False))"
proof -
  have pending: "\<not> settled (mount drops)" "\<not> settled (deliver drops Unmount (mount drops))"
    by (simp_all add: deliver.simps mount_eq)
  have "trace (deliver drops Unmount (mount drops)) = trace (mount drops)"
    by (simp add: deliver.simps)
  with pending show ?thesis
    by (simp add: trace_deliver_pending cells_late_dropped cells_late_written)
qed

end
